theory Spec2Isabelle
  imports Complex_Main
begin

section \<open>The Somfy URTSii node server: shade position engine and serial transport\<close>

text \<open>
  The development embeds \<^verbatim>\<open>somfy-urts-poly.py\<close>. Python ints are \<open>int\<close>. A Python
  float is a finite number, an infinity or NaN. Where the program compares or truncates
  the result of float arithmetic (in \<^verbatim>\<open>_updatePosition\<close>), each operation on finite
  operands is the exact operation followed by the rounding \<open>fl\<close> of the environment,
  of which nothing is assumed. Every call of \<^verbatim>\<open>time.time()\<close> and every answer of the
  controller node is read from the environment too, indexed by how many such calls the
  shade has made so far.
\<close>

subsection \<open>Values, errors and the environment\<close>

datatype py_error = ValueError | TypeError | ZeroDivisionError | IndexError | OverflowError

datatype pyfloat = Finite real | PosInf | NegInf | NaN

text \<open>
  The comparisons \<^verbatim>\<open><\<close> and \<^verbatim>\<open><=\<close> of floats: every comparison with NaN is
  false.
\<close>

fun float_lt :: "pyfloat \<Rightarrow> pyfloat \<Rightarrow> bool" where
  "float_lt NaN b = False"
| "float_lt a NaN = False"
| "float_lt (Finite x) (Finite y) = (x < y)"
| "float_lt a NegInf = False"
| "float_lt PosInf b = False"
| "float_lt NegInf b = True"
| "float_lt a PosInf = True"

fun float_le :: "pyfloat \<Rightarrow> pyfloat \<Rightarrow> bool" where
  "float_le NaN b = False"
| "float_le a NaN = False"
| "float_le (Finite x) (Finite y) = (x \<le> y)"
| "float_le NegInf b = True"
| "float_le a PosInf = True"
| "float_le a NegInf = False"
| "float_le PosInf b = False"

text \<open>
  Python's \<^verbatim>\<open>min(a, b)\<close> and \<^verbatim>\<open>max(a, b)\<close> return \<open>a\<close> unless \<open>b\<close> compares
  smaller or greater, so a NaN in the first place stays.
\<close>

definition py_min :: "pyfloat \<Rightarrow> pyfloat \<Rightarrow> pyfloat" where
  "py_min a b = (if float_lt b a then b else a)"

definition py_max :: "pyfloat \<Rightarrow> pyfloat \<Rightarrow> pyfloat" where
  "py_max a b = (if float_lt a b then b else a)"

text \<open>
  \<^verbatim>\<open>int(x)\<close> on a float truncates towards zero; it raises on NaN and on an infinity.
\<close>

definition int_of_float :: "real \<Rightarrow> int" where
  "int_of_float x = (if 0 \<le> x then \<lfloor>x\<rfloor> else \<lceil>x\<rceil>)"

fun py_int_of_float :: "pyfloat \<Rightarrow> py_error + int" where
  "py_int_of_float (Finite x) = Inr (int_of_float x)"
| "py_int_of_float NaN = Inl ValueError"
| "py_int_of_float PosInf = Inl OverflowError"
| "py_int_of_float NegInf = Inl OverflowError"

text \<open>
  The conversion of an int to a float, as arithmetic between the two does it, raises
  from \<open>2^1024 - 2^970\<close> on, the first int that rounds beyond the largest double. Below
  that the int is taken as its own value.
\<close>

definition float_limit :: real where
  "float_limit = 2 ^ 1024 - 2 ^ 970"

definition py_float_of_int :: "int \<Rightarrow> py_error + real" where
  "py_float_of_int n =
     (if float_limit \<le> \<bar>real_of_int n\<bar> then Inl OverflowError else Inr (real_of_int n))"

text \<open>
  The \<^verbatim>\<open>'value'\<close> entry of a command dictionary, and an entry of the configuration, by
  what Python's conversions make of the text: an integer literal, which \<^verbatim>\<open>int()\<close> and
  \<^verbatim>\<open>float()\<close> both accept; text that only \<^verbatim>\<open>float()\<close> accepts, with the finite
  value, the infinity (\<open>True\<close> for the positive one) or the NaN it denotes; and text that
  neither accepts. An absent entry (\<^verbatim>\<open>command.get('value')\<close> is \<^verbatim>\<open>None\<close>) is
  \<open>None\<close>.
\<close>

datatype pyvalue = IntText int | FloatText real | InfText bool | NanText | OtherText

fun py_int :: "pyvalue \<Rightarrow> py_error + int" where
  "py_int (IntText n) = Inr n"
| "py_int v = Inl ValueError"

text \<open>\<^verbatim>\<open>float()\<close> of an integer literal beyond the doubles is an infinity.\<close>

fun py_float :: "pyvalue option \<Rightarrow> py_error + pyfloat" where
  "py_float None = Inl TypeError"
| "py_float (Some (IntText n)) =
     Inr (if float_limit \<le> real_of_int n then PosInf
          else if real_of_int n \<le> - float_limit then NegInf
          else Finite (real_of_int n))"
| "py_float (Some (FloatText r)) = Inr (Finite r)"
| "py_float (Some (InfText positive)) = Inr (if positive then PosInf else NegInf)"
| "py_float (Some NanText) = Inr NaN"
| "py_float (Some OtherText) = Inl ValueError"

record env =
  clock :: "nat \<Rightarrow> real"
  parent_command :: "nat \<Rightarrow> bool"
  fl :: "real \<Rightarrow> real"

text \<open>
  The float operations of \<^verbatim>\<open>_updatePosition\<close>. The dividend is a finite positive
  number there; a finite divisor of zero raises, an infinite one gives zero.
\<close>

fun py_truediv :: "env \<Rightarrow> real \<Rightarrow> pyfloat \<Rightarrow> py_error + pyfloat" where
  "py_truediv e a (Finite b) =
     (if b = 0 then Inl ZeroDivisionError else Inr (Finite (fl e (a / b))))"
| "py_truediv e a NaN = Inr NaN"
| "py_truediv e a PosInf = Inr (Finite 0)"
| "py_truediv e a NegInf = Inr (Finite 0)"

fun float_times :: "env \<Rightarrow> pyfloat \<Rightarrow> real \<Rightarrow> pyfloat" where
  "float_times e (Finite a) b = Finite (fl e (a * b))"
| "float_times e NaN b = NaN"
| "float_times e PosInf b = (if 0 < b then PosInf else if b < 0 then NegInf else NaN)"
| "float_times e NegInf b = (if 0 < b then NegInf else if b < 0 then PosInf else NaN)"

fun float_plus :: "env \<Rightarrow> real \<Rightarrow> pyfloat \<Rightarrow> pyfloat" where
  "float_plus e a (Finite b) = Finite (fl e (a + b))"
| "float_plus e a NaN = NaN"
| "float_plus e a PosInf = PosInf"
| "float_plus e a NegInf = NegInf"

fun float_minus :: "env \<Rightarrow> real \<Rightarrow> pyfloat \<Rightarrow> pyfloat" where
  "float_minus e a (Finite b) = Finite (fl e (a - b))"
| "float_minus e a NaN = NaN"
| "float_minus e a PosInf = NegInf"
| "float_minus e a NegInf = PosInf"

subsection \<open>The shade node\<close>

text \<open>
  The callback a \<^verbatim>\<open>threading.Timer\<close> holds: the logger call of the constructor,
  \<^verbatim>\<open>self._stop\<close>, \<^verbatim>\<open>self.setShadePosition\<close> with its argument, or
  \<^verbatim>\<open>self._updatePosition\<close>.
\<close>

datatype timer_action = LogDebug | DoStop | DoSetShadePosition int | DoUpdatePosition

record timer_obj =
  interval :: pyfloat
  action :: timer_action
  running :: bool

text \<open>
  The third argument of \<^verbatim>\<open>_command\<close>: the default \<^verbatim>\<open>""\<close>, the string
  \<^verbatim>\<open>"S"\<close>, or the integer target the caller passes on.
\<close>

datatype next_cmd = NextNone | NextStop | NextPosition int

text \<open>
  \<^verbatim>\<open>self.travelTime\<close> is the int literal 8 of \<^verbatim>\<open>start\<close> or a float, from the
  configuration or from \<^verbatim>\<open>setTravelTime\<close>; \<open>as_float\<close> is \<^verbatim>\<open>float()\<close> of it.
\<close>

datatype pynum = IntEight | PyFloat pyfloat

fun as_float :: "pynum \<Rightarrow> pyfloat" where
  "as_float IntEight = Finite 8"
| "as_float (PyFloat x) = x"

record shade =
  address :: string
  position :: int
  lastCmdTime :: real
  lastCmd :: string
  travelTime :: pynum
  timer :: timer_obj
  drv_ST :: int
  drv_GV1 :: pynum
  sent :: "string list"
  ticks :: nat

text \<open>
  \<^verbatim>\<open>__init__\<close> followed by \<^verbatim>\<open>start\<close>, which the host calls once the node is
  added and which creates the attribute \<^verbatim>\<open>travelTime\<close>. The second argument is the
  entry of the Polyglot configuration under the shade's address, if there is one; a
  value \<^verbatim>\<open>float()\<close> rejects gives the default of 8 seconds, and any float it accepts
  is taken unchecked. The position driver starts at the value of the class's
  \<^verbatim>\<open>drivers\<close> list.
\<close>

definition configured_travelTime :: "pyvalue option \<Rightarrow> pynum" where
  "configured_travelTime cfg =
     (case cfg of
        None \<Rightarrow> IntEight
      | Some v \<Rightarrow> (case py_float (Some v) of Inr t \<Rightarrow> PyFloat t | Inl err \<Rightarrow> IntEight))"

definition init_shade :: "string \<Rightarrow> pyvalue option \<Rightarrow> shade" where
  "init_shade a cfg =
     \<lparr>address = a, position = - 1, lastCmdTime = 0, lastCmd = [],
      travelTime = configured_travelTime cfg,
      timer = \<lparr>interval = Finite 1, action = LogDebug, running = False\<rparr>,
      drv_ST = 0, drv_GV1 = configured_travelTime cfg, sent = [], ticks = 0\<rparr>"

text \<open>One call of \<^verbatim>\<open>time.time()\<close>.\<close>

definition time_time :: "env \<Rightarrow> shade \<Rightarrow> real" where
  "time_time e s = clock e (ticks s)"

definition tick :: "shade \<Rightarrow> shade" where
  "tick s = s\<lparr>ticks := Suc (ticks s)\<rparr>"

text \<open>
  \<^verbatim>\<open>self.parent.command(self.address, c)\<close>: the command is handed to the controller
  node, whose answer is the environment's. \<^verbatim>\<open>Controller.command\<close> catches every
  exception and answers \<^verbatim>\<open>False\<close> then, so the call does not raise.
\<close>

definition parent_answer :: "env \<Rightarrow> shade \<Rightarrow> bool" where
  "parent_answer e s = parent_command e (length (sent s))"

definition hand_over :: "string \<Rightarrow> shade \<Rightarrow> shade" where
  "hand_over c s = s\<lparr>sent := sent s @ [c]\<rparr>"

definition timer_cancel :: "shade \<Rightarrow> shade" where
  "timer_cancel s = s\<lparr>timer := (timer s)\<lparr>running := False\<rparr>\<rparr>"

text \<open>
  \<^verbatim>\<open>_updatePosition\<close>. The position it computes from the first clock reading comes
  first. The division can raise, and so can \<^verbatim>\<open>int()\<close>, which is only called when the
  last command is Up or Down. The position is an int between \<open>- 1\<close> and 100 in every
  state the node reaches, which \<^verbatim>\<open>self.position + _travel\<close> converts exactly.
\<close>

definition new_position :: "env \<Rightarrow> real \<Rightarrow> shade \<Rightarrow> py_error + int" where
  "new_position e now s =
     (let timeDifference = max (fl e (now - lastCmdTime s)) 0 in
      if float_le (as_float (travelTime s)) (Finite timeDifference) then
        (if lastCmd s = ''U'' then Inr 100
         else if lastCmd s = ''D'' then Inr 0
         else Inr (position s))
      else if timeDifference > 0 \<and> position s \<ge> 0 then
        (case py_truediv e timeDifference (as_float (travelTime s)) of
           Inl err \<Rightarrow> Inl err
         | Inr q \<Rightarrow>
             (let travel = float_times e q 100 in
              if lastCmd s = ''U'' then
                py_int_of_float
                  (py_max (py_min (float_plus e (real_of_int (position s)) travel)
                             (Finite 100)) (Finite 0))
              else if lastCmd s = ''D'' then
                py_int_of_float
                  (py_max (py_min (float_minus e (real_of_int (position s)) travel)
                             (Finite 100)) (Finite 0))
              else Inr (position s)))
      else Inr (position s))"

text \<open>
  A raise leaves the state as the statements before it have made it: the error of a
  method comes with that state.
\<close>

definition updatePosition :: "env \<Rightarrow> shade \<Rightarrow> py_error \<times> shade + shade" where
  "updatePosition e s =
     (let s1 = timer_cancel s;
          now = time_time e s1;
          s2 = tick s1
      in case new_position e now s2 of
           Inl err \<Rightarrow> Inl (err, s2)
         | Inr p \<Rightarrow>
             (let s3 = s2\<lparr>position := p\<rparr>;
                  s4 = (if position s3 \<ge> 0 then s3\<lparr>drv_ST := position s3\<rparr> else s3);
                  s5 = (tick s4)\<lparr>lastCmdTime := time_time e s4\<rparr>
              in Inr (s5\<lparr>lastCmd := []\<rparr>)))"

text \<open>\<^verbatim>\<open>_stop\<close>: the answer of the controller is the result.\<close>

definition stop_shade :: "env \<Rightarrow> shade \<Rightarrow> py_error \<times> shade + bool \<times> shade" where
  "stop_shade e s =
     (let success = parent_answer e s;
          s1 = hand_over ''S'' s
      in case updatePosition e s1 of
           Inl err \<Rightarrow> Inl err
         | Inr s2 \<Rightarrow> Inr (success, s2))"

text \<open>
  \<^verbatim>\<open>_command\<close>. \<^verbatim>\<open>str(command)[0]\<close> raises on the empty string, before anything
  else is done. The controller's answer is dropped. Creating and starting a
  \<^verbatim>\<open>threading.Timer\<close> is taken not to raise, so the \<^verbatim>\<open>except\<close> branch is not
  reached and the result is \<^verbatim>\<open>True\<close>.
\<close>

definition isNumeric :: "next_cmd \<Rightarrow> bool" where
  "isNumeric n = (case n of NextPosition p \<Rightarrow> True | _ \<Rightarrow> False)"

definition next_action :: "next_cmd \<Rightarrow> timer_action" where
  "next_action n =
     (if n = NextStop then DoStop
      else if isNumeric n then
        (case n of NextPosition p \<Rightarrow> DoSetShadePosition p | _ \<Rightarrow> DoUpdatePosition)
      else DoUpdatePosition)"

definition command_shade ::
  "env \<Rightarrow> pyfloat \<Rightarrow> string \<Rightarrow> next_cmd \<Rightarrow> shade \<Rightarrow> py_error \<times> shade + bool \<times> shade" where
  "command_shade e timeSP command nextCmd s =
     (case command of
        [] \<Rightarrow> Inl (IndexError, s)
      | ch # rest \<Rightarrow>
          (let c = [ch];
               s1 = hand_over c s;
               s2 = (tick s1)\<lparr>lastCmdTime := time_time e s1\<rparr>;
               s3 = s2\<lparr>lastCmd := c\<rparr>;
               s4 = timer_cancel s3;
               s5 = s4\<lparr>timer :=
                      \<lparr>interval = timeSP, action = next_action nextCmd, running = True\<rparr>\<rparr>
           in Inr (True, s5)))"

text \<open>
  \<^verbatim>\<open>_travelTimeReqd\<close>. The arithmetic converts an int to a float: the difference of
  the positions when the travel time is a float, the product with it when the travel
  time is the int 8. That conversion raises on a huge int, and the \<^verbatim>\<open>except\<close> branch
  then returns the travel time. The duration is handed to the timer and read nowhere
  else; for finite operands it is given by its exact value, without the rounding of the
  two operations.
\<close>

fun float_scale :: "pyfloat \<Rightarrow> real \<Rightarrow> pyfloat" where
  "float_scale (Finite a) b = Finite (a * b)"
| "float_scale NaN b = NaN"
| "float_scale PosInf b = (if 0 < b then PosInf else if b < 0 then NegInf else NaN)"
| "float_scale NegInf b = (if 0 < b then NegInf else if b < 0 then PosInf else NaN)"

fun float_abs :: "pyfloat \<Rightarrow> pyfloat" where
  "float_abs (Finite a) = Finite \<bar>a\<bar>"
| "float_abs NaN = NaN"
| "float_abs PosInf = PosInf"
| "float_abs NegInf = PosInf"

definition travelTimeReqd :: "shade \<Rightarrow> int \<Rightarrow> pyfloat" where
  "travelTimeReqd s positionSP =
     (if position s = - 1 then as_float (travelTime s)
      else
        (case travelTime s of
           IntEight \<Rightarrow>
             (case py_float_of_int (8 * (positionSP - position s)) of
                Inl err \<Rightarrow> as_float (travelTime s)
              | Inr x \<Rightarrow> Finite \<bar>x / 100\<bar>)
         | PyFloat t \<Rightarrow>
             (case py_float_of_int (positionSP - position s) of
                Inl err \<Rightarrow> as_float (travelTime s)
              | Inr x \<Rightarrow> float_abs (float_scale (float_scale t x) (1 / 100)))))"

definition setShadePosition ::
  "env \<Rightarrow> int \<Rightarrow> shade \<Rightarrow> py_error \<times> shade + bool \<times> shade" where
  "setShadePosition e positionSP s =
     (case updatePosition e s of
        Inl err \<Rightarrow> Inl err
      | Inr s1 \<Rightarrow>
          if positionSP \<le> 0 then
            command_shade e (travelTimeReqd s1 positionSP) ''D'' NextNone s1
          else if positionSP \<ge> 100 then
            command_shade e (travelTimeReqd s1 positionSP) ''U'' NextNone s1
          else if position s1 = - 1 then
            command_shade e (travelTimeReqd s1 positionSP) ''D'' (NextPosition positionSP) s1
          else if positionSP > position s1 then
            command_shade e (travelTimeReqd s1 positionSP) ''U'' NextStop s1
          else
            command_shade e (travelTimeReqd s1 positionSP) ''D'' NextStop s1)"

text \<open>
  The command handlers. Each takes the \<^verbatim>\<open>'value'\<close> entry of its command where it
  reads it.
\<close>

definition down :: "env \<Rightarrow> shade \<Rightarrow> py_error \<times> shade + bool \<times> shade" where
  "down e s = setShadePosition e 0 s"

definition up5 :: "env \<Rightarrow> shade \<Rightarrow> py_error \<times> shade + bool \<times> shade" where
  "up5 e s =
     (if position s = - 1 then Inr (False, s) else setShadePosition e (position s + 5) s)"

definition down5 :: "env \<Rightarrow> shade \<Rightarrow> py_error \<times> shade + bool \<times> shade" where
  "down5 e s =
     (if position s = - 1 then Inr (False, s) else setShadePosition e (position s - 5) s)"

definition up :: "env \<Rightarrow> pyvalue option \<Rightarrow> shade \<Rightarrow> py_error \<times> shade + bool \<times> shade" where
  "up e v s =
     (case v of
        None \<Rightarrow> setShadePosition e 100 s
      | Some x \<Rightarrow>
          (case py_int x of
             Inl err \<Rightarrow> Inl (err, s)
           | Inr p \<Rightarrow> setShadePosition e p s))"

definition stop :: "env \<Rightarrow> shade \<Rightarrow> py_error \<times> shade + bool \<times> shade" where
  "stop e s = stop_shade e s"

definition query :: "shade \<Rightarrow> shade" where
  "query s =
     (let s1 = (if position s \<ge> 0 then s\<lparr>drv_ST := position s\<rparr> else s)
      in s1\<lparr>drv_GV1 := travelTime s1\<rparr>)"

text \<open>
  \<^verbatim>\<open>setTravelTime\<close>: the test \<^verbatim>\<open>_time < 0 or _time > 60\<close> is made of two float
  comparisons.
\<close>

definition setTravelTime :: "pyvalue option \<Rightarrow> shade \<Rightarrow> bool \<times> shade" where
  "setTravelTime v s =
     (case py_float v of
        Inl err \<Rightarrow> (False, s)
      | Inr t \<Rightarrow>
          if float_lt t (Finite 0) \<or> float_lt (Finite 60) t then (False, s)
          else (True, s\<lparr>travelTime := PyFloat t, drv_GV1 := PyFloat t\<rparr>))"

text \<open>
  The expiry of the shade's timer: a timer that was started and not cancelled runs its
  callback once, in its own thread; the callback's result is dropped.
\<close>

definition timer_expires :: "env \<Rightarrow> shade \<Rightarrow> py_error \<times> shade + shade" where
  "timer_expires e s =
     (if running (timer s) then
        (let s1 = timer_cancel s in
         case action (timer s) of
           LogDebug \<Rightarrow> Inr s1
         | DoStop \<Rightarrow> map_sum id snd (stop_shade e s1)
         | DoSetShadePosition p \<Rightarrow> map_sum id snd (setShadePosition e p s1)
         | DoUpdatePosition \<Rightarrow> updatePosition e s1)
      else Inr s)"

subsection \<open>Sequences of operations\<close>

datatype operation =
    DON "pyvalue option" | DOF | BRT | DIM | QUERY | STOP
  | SET_TRAVEL_TIME "pyvalue option" | Expiry | Finalize

definition perform :: "env \<Rightarrow> operation \<Rightarrow> shade \<Rightarrow> py_error \<times> shade + shade" where
  "perform e opr s =
     (case opr of
        DON v \<Rightarrow> map_sum id snd (up e v s)
      | DOF \<Rightarrow> map_sum id snd (down e s)
      | BRT \<Rightarrow> map_sum id snd (up5 e s)
      | DIM \<Rightarrow> map_sum id snd (down5 e s)
      | QUERY \<Rightarrow> Inr (query s)
      | STOP \<Rightarrow> map_sum id snd (stop e s)
      | SET_TRAVEL_TIME v \<Rightarrow> Inr (snd (setTravelTime v s))
      | Expiry \<Rightarrow> timer_expires e s
      | Finalize \<Rightarrow> updatePosition e s)"

text \<open>
  A run of the node: the handler of each operation in turn. A handler that raises is
  abandoned, and the node goes on from the state the handler had reached.
\<close>

fun run :: "env \<Rightarrow> shade \<Rightarrow> operation list \<Rightarrow> shade" where
  "run e s [] = s"
| "run e s (opr # ops) =
     (case perform e opr s of
        Inl r \<Rightarrow> run e (snd r) ops
      | Inr s' \<Rightarrow> run e s' ops)"

definition position_ok :: "int \<Rightarrow> bool" where
  "position_ok p = (p = - 1 \<or> (0 \<le> p \<and> p \<le> 100))"

subsection \<open>The controller node: the serial transport\<close>

text \<open>
  The serial device is the environment of the controller: what the \<open>k\<close>-th call of a
  \<^verbatim>\<open>pyserial\<close> constructor (\<^verbatim>\<open>serial.Serial\<close> or \<^verbatim>\<open>serial.serial_for_url\<close>),
  of \<^verbatim>\<open>write\<close> and of \<^verbatim>\<open>close\<close> does. A constructor raises or returns a port
  object, whose \<^verbatim>\<open>is_open\<close> flag it has set; a write or a close raises (\<open>False\<close>) or
  completes (\<open>True\<close>).
\<close>

datatype open_outcome = OpenRaises | Opened bool

record serial_env =
  open_result :: "nat \<Rightarrow> open_outcome"
  write_ok :: "nat \<Rightarrow> bool"
  close_ok :: "nat \<Rightarrow> bool"










subsection \<open>Concrete inputs\<close>

text \<open>
  An environment whose clock stands still and one whose clock advances by a fixed step
  at every reading; the controller answers that the command was written, and no float
  operation rounds. At the inputs they are used on below, every quotient, product, sum
  and difference is a binary fraction of a few bits, which a double holds exactly.
\<close>

definition still_env :: "real \<Rightarrow> env" where
  "still_env now = \<lparr>clock = (\<lambda>n. now), parent_command = (\<lambda>n. True), fl = (\<lambda>x. x)\<rparr>"

definition stepping_env :: "real \<Rightarrow> env" where
  "stepping_env d =
     \<lparr>clock = (\<lambda>n. d * real n), parent_command = (\<lambda>n. True), fl = (\<lambda>x. x)\<rparr>"

text \<open>
  The rounding of binary64 at the two results that are not doubles when a shade with a
  travel time of 10 seconds is finalized 5.5 seconds after the command: the quotient
  \<open>5.5 / 10\<close> and the product of its double with 100.
\<close>

definition binary64_sample :: "real \<Rightarrow> real" where
  "binary64_sample x =
     (if x = 11 / 20 then 2476979795053773 / 4503599627370496
      else if x = 2476979795053773 / 4503599627370496 * 100
      then 7740561859543041 / 140737488355328
      else x)"

definition binary64_env :: "real \<Rightarrow> env" where
  "binary64_env now =
     \<lparr>clock = (\<lambda>n. now), parent_command = (\<lambda>n. True), fl = binary64_sample\<rparr>"

text \<open>
  A shade on channel 1 with a configured travel time of 10 seconds, at the given position
  and with the given last command issued at time 0; and the same shade after a travel
  time of NaN has been stored.
\<close>

definition demo_shade :: "int \<Rightarrow> string \<Rightarrow> shade" where
  "demo_shade p c = (init_shade ''01_01_01'' (Some (IntText 10)))\<lparr>position := p, lastCmd := c\<rparr>"

definition nan_shade :: "int \<Rightarrow> string \<Rightarrow> shade" where
  "nan_shade p c = snd (setTravelTime (Some NanText) (demo_shade p c))"



definition absent_port :: serial_env where
  "absent_port =
     \<lparr>open_result = (\<lambda>k. OpenRaises), write_ok = (\<lambda>k. True), close_ok = (\<lambda>k. True)\<rparr>"

section \<open>Properties of the shade node\<close>

subsection \<open>Position finalization\<close>

lemma clamp_int:
  "py_int_of_float (py_max (py_min x (Finite 100)) (Finite 0)) =
     (case x of
        Finite v \<Rightarrow> Inr \<lfloor>max 0 (min 100 v)\<rfloor>
      | PosInf \<Rightarrow> Inr 100
      | NegInf \<Rightarrow> Inr 0
      | NaN \<Rightarrow> Inl ValueError)"
  by (cases x) (auto simp: py_min_def py_max_def int_of_float_def max_def min_def)

lemma new_position_frame:
  "new_position e now (tick (timer_cancel s)) = new_position e now s"
  by (simp add: new_position_def tick_def timer_cancel_def Let_def
      cong: if_cong sum.case_cong)

lemma new_position_total:
  assumes "as_float (travelTime s) \<noteq> NaN"
  shows "\<exists>p. new_position e now s = Inr p"
proof (cases "as_float (travelTime s)")
  case (Finite T)
  then show ?thesis
    by (auto simp: new_position_def Let_def clamp_int split: sum.splits)
next
  case PosInf
  then show ?thesis by (simp add: new_position_def Let_def clamp_int)
next
  case NegInf
  then show ?thesis by (simp add: new_position_def Let_def)
next
  case NaN
  with assms show ?thesis by simp
qed

lemma new_position_raises:
  assumes "new_position e now s = Inl err"
  shows "as_float (travelTime s) = NaN \<and> err = ValueError"
proof (cases "as_float (travelTime s)")
  case (Finite T)
  with assms show ?thesis
    by (auto simp: new_position_def Let_def clamp_int split: sum.splits if_splits)
next
  case PosInf
  with assms show ?thesis
    by (auto simp: new_position_def Let_def clamp_int split: if_splits)
next
  case NegInf
  with assms show ?thesis
    by (auto simp: new_position_def Let_def split: if_splits)
next
  case NaN
  with assms show ?thesis
    by (auto simp: new_position_def Let_def clamp_int split: if_splits)
qed

lemma new_position_range:
  assumes "new_position e now s = Inr p"
  shows "p = position s \<or> (0 \<le> p \<and> p \<le> 100)"
proof (cases "as_float (travelTime s)")
  case (Finite T)
  with assms show ?thesis
    by (auto simp: new_position_def Let_def clamp_int split: sum.splits if_splits)
next
  case PosInf
  with assms show ?thesis
    by (auto simp: new_position_def Let_def clamp_int split: if_splits)
next
  case NegInf
  with assms show ?thesis
    by (auto simp: new_position_def Let_def split: if_splits)
next
  case NaN
  with assms show ?thesis
    by (auto simp: new_position_def Let_def clamp_int split: if_splits)
qed


lemma updatePosition_eq:
  assumes "new_position e (clock e (ticks s)) s = Inr p"
  shows "updatePosition e s =
     Inr (s\<lparr>position := p, lastCmdTime := clock e (Suc (ticks s)), lastCmd := [],
            timer := (timer s)\<lparr>running := False\<rparr>,
            drv_ST := (if 0 \<le> p then p else drv_ST s), ticks := Suc (Suc (ticks s))\<rparr>)"
proof -
  have "new_position e (time_time e (timer_cancel s)) (tick (timer_cancel s)) = Inr p"
    using assms by (simp add: new_position_frame) (simp add: time_time_def timer_cancel_def)
  then show ?thesis
    by (simp add: updatePosition_def Let_def)
       (simp add: tick_def timer_cancel_def time_time_def)
qed

lemma updatePosition_raise:
  assumes "new_position e (clock e (ticks s)) s = Inl err"
  shows "updatePosition e s = Inl (err, tick (timer_cancel s))"
proof -
  have "new_position e (time_time e (timer_cancel s)) (tick (timer_cancel s)) = Inl err"
    using assms by (simp add: new_position_frame) (simp add: time_time_def timer_cancel_def)
  then show ?thesis by (simp add: updatePosition_def Let_def)
qed

lemma updatePosition_total:
  assumes "as_float (travelTime s) \<noteq> NaN"
  shows "\<exists>s'. updatePosition e s = Inr s'"
  using new_position_total [OF assms, of e "clock e (ticks s)"] updatePosition_eq [of e s]
  by auto

lemma updatePosition_fields:
  assumes "updatePosition e s = Inr s'"
  shows "new_position e (clock e (ticks s)) s = Inr (position s')"
    and "lastCmd s' = []"
    and "lastCmdTime s' = clock e (Suc (ticks s))"
    and "travelTime s' = travelTime s"
    and "sent s' = sent s"
    and "ticks s' = Suc (Suc (ticks s))"
    and "running (timer s') = False"
    and "address s' = address s"
proof -
  obtain p where p: "new_position e (clock e (ticks s)) s = Inr p"
    using assms updatePosition_raise [of e s]
    by (cases "new_position e (clock e (ticks s)) s") auto
  from updatePosition_eq [OF p] assms
  have s': "s' = s\<lparr>position := p, lastCmdTime := clock e (Suc (ticks s)), lastCmd := [],
            timer := (timer s)\<lparr>running := False\<rparr>,
            drv_ST := (if 0 \<le> p then p else drv_ST s), ticks := Suc (Suc (ticks s))\<rparr>"
    by simp
  show "new_position e (clock e (ticks s)) s = Inr (position s')" using p s' by simp
  show "lastCmd s' = []" "lastCmdTime s' = clock e (Suc (ticks s))"
    "travelTime s' = travelTime s" "sent s' = sent s" "ticks s' = Suc (Suc (ticks s))"
    "running (timer s') = False" "address s' = address s"
    using s' by simp_all
qed

lemma updatePosition_raised:
  assumes "updatePosition e s = Inl r"
  shows "as_float (travelTime s) = NaN" and "r = (ValueError, tick (timer_cancel s))"
proof -
  obtain err where err: "new_position e (clock e (ticks s)) s = Inl err"
    using assms updatePosition_eq [of e s]
    by (cases "new_position e (clock e (ticks s)) s") auto
  from new_position_raises [OF err] updatePosition_raise [OF err] assms
  show "as_float (travelTime s) = NaN" and "r = (ValueError, tick (timer_cancel s))"
    by simp_all
qed

lemma command_shade_eq:
  "command_shade e d [c] n s =
     Inr (True, s\<lparr>sent := sent s @ [c # []], lastCmdTime := clock e (ticks s), lastCmd := [c],
                   timer := \<lparr>interval = d, action = next_action n, running = True\<rparr>,
                   ticks := Suc (ticks s)\<rparr>)"
  by (simp add: command_shade_def Let_def hand_over_def tick_def time_time_def timer_cancel_def)

lemma next_action_simps:
  "next_action NextNone = DoUpdatePosition"
  "next_action NextStop = DoStop"
  "next_action (NextPosition p) = DoSetShadePosition p"
  by (simp_all add: next_action_def isNumeric_def)

text \<open>
  C4, amended. For a travel time that is a number, position finalization does not fail.
  With \<open>elapsed\<close> the float difference of the clock and the time of the last command,
  clamped at zero: once \<open>elapsed\<close> has reached the travel time, the position snaps to 100
  after Up and to 0 after Down, whatever the position was (unknown too); before that, if
  \<open>elapsed\<close> is positive and the position is known, the position moves by
  \<open>elapsed / travelTime * 100\<close> in the direction of the last command, each operation
  rounded to a double, and the result is clamped to \<open>[0, 100]\<close> and truncated to an
  integer.
\<close>

theorem updatePosition_finalizes:
  assumes "as_float (travelTime s) = Finite T"
  shows "\<exists>s'. updatePosition e s = Inr s' \<and>
     (let elapsed = max (fl e (clock e (ticks s) - lastCmdTime s)) 0;
          p = real_of_int (position s);
          travel = fl e (fl e (elapsed / T) * 100) in
      (T \<le> elapsed \<and> lastCmd s = ''U'' \<longrightarrow> position s' = 100) \<and>
      (T \<le> elapsed \<and> lastCmd s = ''D'' \<longrightarrow> position s' = 0) \<and>
      (elapsed < T \<and> 0 < elapsed \<and> position_ok (position s) \<and> position s \<noteq> - 1 \<and>
         lastCmd s = ''U'' \<longrightarrow>
         position s' = \<lfloor>max 0 (min 100 (fl e (p + travel)))\<rfloor>) \<and>
      (elapsed < T \<and> 0 < elapsed \<and> position_ok (position s) \<and> position s \<noteq> - 1 \<and>
         lastCmd s = ''D'' \<longrightarrow>
         position s' = \<lfloor>max 0 (min 100 (fl e (p - travel)))\<rfloor>))"
proof -
  have "as_float (travelTime s) \<noteq> NaN" using assms by simp
  then obtain s' where s': "updatePosition e s = Inr s'"
    using updatePosition_total by blast
  have np: "new_position e (clock e (ticks s)) s = Inr (position s')"
    by (rule updatePosition_fields(1) [OF s'])
  have "(let elapsed = max (fl e (clock e (ticks s) - lastCmdTime s)) 0;
          p = real_of_int (position s);
          travel = fl e (fl e (elapsed / T) * 100) in
      (T \<le> elapsed \<and> lastCmd s = ''U'' \<longrightarrow> position s' = 100) \<and>
      (T \<le> elapsed \<and> lastCmd s = ''D'' \<longrightarrow> position s' = 0) \<and>
      (elapsed < T \<and> 0 < elapsed \<and> position_ok (position s) \<and> position s \<noteq> - 1 \<and>
         lastCmd s = ''U'' \<longrightarrow>
         position s' = \<lfloor>max 0 (min 100 (fl e (p + travel)))\<rfloor>) \<and>
      (elapsed < T \<and> 0 < elapsed \<and> position_ok (position s) \<and> position s \<noteq> - 1 \<and>
         lastCmd s = ''D'' \<longrightarrow>
         position s' = \<lfloor>max 0 (min 100 (fl e (p - travel)))\<rfloor>))"
    using np assms
    by (auto simp: new_position_def Let_def clamp_int position_ok_def split: if_splits)
  with s' show ?thesis by blast
qed

lemma demo_shade_simps:
  "lastCmdTime (demo_shade p c) = 0" "travelTime (demo_shade p c) = PyFloat (Finite 10)"
  "position (demo_shade p c) = p" "lastCmd (demo_shade p c) = c"
  "sent (demo_shade p c) = []" "ticks (demo_shade p c) = 0"
  by (simp_all add: demo_shade_def init_shade_def configured_travelTime_def float_limit_def)

lemma env_simps:
  "clock (still_env t) n = t" "fl (still_env t) x = x"
  "clock (stepping_env d) n = d * real n" "fl (stepping_env d) x = x"
  "clock (binary64_env t) n = t" "fl (binary64_env t) = binary64_sample"
  by (simp_all add: still_env_def stepping_env_def binary64_env_def)

theorem updatePosition_finalizes_witness:
  "map_sum fst position (updatePosition (still_env 12) (demo_shade 30 ''U'')) = Inr 100 \<and>
   map_sum fst position (updatePosition (still_env 12) (demo_shade (- 1) ''D'')) = Inr 0 \<and>
   map_sum fst position (updatePosition (still_env 5) (demo_shade 30 ''U'')) = Inr 80 \<and>
   map_sum fst position (updatePosition (still_env (5 / 4)) (demo_shade 30 ''D'')) = Inr 17"
proof -
  have T: "as_float (travelTime (demo_shade p c)) = Finite 10" for p c
    by (simp add: demo_shade_simps)
  have f: "\<lfloor>35 / 2 :: real\<rfloor> = 17" by simp
  show ?thesis
    using updatePosition_finalizes [OF T, of "still_env 12" 30 "''U''"]
      updatePosition_finalizes [OF T, of "still_env 12" "- 1" "''D''"]
      updatePosition_finalizes [OF T, of "still_env 5" 30 "''U''"]
      updatePosition_finalizes [OF T, of "still_env (5 / 4)" 30 "''D''"]
    by (auto simp: demo_shade_simps env_simps Let_def position_ok_def f)
qed

lemma nan_shade_simps:
  "lastCmdTime (nan_shade p c) = 0" "travelTime (nan_shade p c) = PyFloat NaN"
  "position (nan_shade p c) = p" "lastCmd (nan_shade p c) = c"
  "sent (nan_shade p c) = []" "ticks (nan_shade p c) = 0"
  by (simp_all add: nan_shade_def setTravelTime_def demo_shade_simps)

text \<open>
  Against C4 as stated. Finalized 5.5 seconds after Down, a shade at position 100 with a
  travel time of 10 seconds ends at 44: the doubles give 55.00000000000001 for
  \<open>5.5 / 10 * 100\<close>, where the exact quotient leaves 45. And with a travel time of NaN
  the finalization of a partial move from a known position raises.
\<close>

theorem updatePosition_finalizes_counterexample:
  "map_sum fst position (updatePosition (binary64_env (11 / 2)) (demo_shade 100 ''D'')) = Inr 44 \<and>
   \<lfloor>max 0 (min 100 (100 - (11 / 2) / 10 * 100 :: real))\<rfloor> = 45 \<and>
   map_sum fst position (updatePosition (still_env 1) (nan_shade 50 ''U'')) = Inl ValueError"
proof -
  have q: "binary64_sample (11 / 20) = 2476979795053773 / 4503599627370496"
    and t: "binary64_sample (2476979795053773 / 4503599627370496 * 100) =
              7740561859543041 / 140737488355328"
    and d: "binary64_sample (11 / 2) = 11 / 2"
    and r: "binary64_sample (100 - 7740561859543041 / 140737488355328) =
              6333186975989759 / 140737488355328"
    by (simp_all add: binary64_sample_def)
  have t': "binary64_sample (61924494876344325 / 1125899906842624) =
              7740561859543041 / 140737488355328"
    and r': "binary64_sample (6333186975989759 / 140737488355328) =
              6333186975989759 / 140737488355328"
    by (simp_all add: binary64_sample_def)
  have fl: "\<lfloor>6333186975989759 / 140737488355328 :: real\<rfloor> = 44" by simp
  have "new_position (binary64_env (11 / 2)) (11 / 2) (demo_shade 100 ''D'') = Inr 44"
    by (simp add: new_position_def Let_def demo_shade_simps env_simps clamp_int d q t r t' r' fl)
  then have a: "map_sum fst position (updatePosition (binary64_env (11 / 2)) (demo_shade 100 ''D'')) = Inr 44"
    using updatePosition_eq [of "binary64_env (11 / 2)" "demo_shade 100 ''D''" 44]
    by (simp add: env_simps demo_shade_simps)
  have "new_position (still_env 1) 1 (nan_shade 50 ''U'') = Inl ValueError"
    by (simp add: new_position_def Let_def nan_shade_simps env_simps clamp_int)
  then have b: "map_sum fst position (updatePosition (still_env 1) (nan_shade 50 ''U'')) = Inl ValueError"
    using updatePosition_raise [of "still_env 1" "nan_shade 50 ''U''" ValueError]
    by (simp add: env_simps nan_shade_simps)
  have c: "\<lfloor>max 0 (min 100 (100 - (11 / 2) / 10 * 100 :: real))\<rfloor> = 45" by simp
  from a b c show ?thesis by simp
qed



subsection \<open>Moves to a position\<close>




lemma setShadePosition_eq:
  assumes "updatePosition e s = Inr s1"
  shows "setShadePosition e t s =
     Inr (True, s1\<lparr>sent := sent s1 @
                      [if t \<le> 0 then ''D'' else if 100 \<le> t then ''U''
                       else if position s1 = - 1 then ''D''
                       else if position s1 < t then ''U'' else ''D''],
                   lastCmdTime := clock e (ticks s1),
                   lastCmd := (if t \<le> 0 then ''D'' else if 100 \<le> t then ''U''
                       else if position s1 = - 1 then ''D''
                       else if position s1 < t then ''U'' else ''D''),
                   timer := \<lparr>interval = travelTimeReqd s1 t,
                             action = (if t \<le> 0 \<or> 100 \<le> t then DoUpdatePosition
                                       else if position s1 = - 1 then DoSetShadePosition t
                                       else DoStop),
                             running = True\<rparr>,
                   ticks := Suc (ticks s1)\<rparr>)"
  using assms by (simp add: setShadePosition_def command_shade_eq next_action_simps)

lemma setShadePosition_raise:
  assumes "updatePosition e s = Inl r"
  shows "setShadePosition e t s = Inl r"
  using assms by (simp add: setShadePosition_def)













subsection \<open>The range of the position\<close>

lemma updatePosition_position_ok:
  assumes "position_ok (position s)"
  shows "updatePosition e s = Inr s' \<Longrightarrow> position_ok (position s')"
    and "updatePosition e s = Inl r \<Longrightarrow> position_ok (position (snd r))"
proof -
  show "position_ok (position s')" if "updatePosition e s = Inr s'"
    using new_position_range [OF updatePosition_fields(1) [OF that]] assms
    by (auto simp: position_ok_def)
  show "position_ok (position (snd r))" if "updatePosition e s = Inl r"
    using updatePosition_raised(2) [OF that] assms
    by (simp add: tick_def timer_cancel_def)
qed

lemma setShadePosition_position_ok:
  assumes "position_ok (position s)"
  shows "setShadePosition e t s = Inr r \<Longrightarrow> position_ok (position (snd r))"
    and "setShadePosition e t s = Inl r' \<Longrightarrow> position_ok (position (snd r'))"
proof -
  show "position_ok (position (snd r))" if r: "setShadePosition e t s = Inr r"
  proof (cases "updatePosition e s")
    case (Inl x)
    with r show ?thesis by (simp add: setShadePosition_raise)
  next
    case (Inr s1)
    have "position (snd r) = position s1"
      using r by (auto simp: setShadePosition_eq [OF Inr])
    with updatePosition_position_ok(1) [OF assms Inr] show ?thesis by simp
  qed
  show "position_ok (position (snd r'))" if r: "setShadePosition e t s = Inl r'"
  proof (cases "updatePosition e s")
    case (Inl x)
    with r have "r' = x" by (simp add: setShadePosition_raise)
    with updatePosition_position_ok(2) [OF assms Inl] show ?thesis by simp
  next
    case (Inr s1)
    with r show ?thesis by (simp add: setShadePosition_eq [OF Inr])
  qed
qed

lemma stop_shade_position_ok:
  assumes "position_ok (position s)"
  shows "stop_shade e s = Inr r \<Longrightarrow> position_ok (position (snd r))"
    and "stop_shade e s = Inl r' \<Longrightarrow> position_ok (position (snd r'))"
proof -
  have h: "position_ok (position (hand_over ''S'' s))"
    using assms by (simp add: hand_over_def)
  show "position_ok (position (snd r))" if "stop_shade e s = Inr r"
    using that updatePosition_position_ok(1) [OF h, of e]
    by (auto simp: stop_shade_def Let_def split: sum.splits)
  show "position_ok (position (snd r'))" if "stop_shade e s = Inl r'"
    using that updatePosition_position_ok(2) [OF h, of e]
    by (auto simp: stop_shade_def Let_def split: sum.splits)
qed

lemma timer_expires_position_ok:
  assumes "position_ok (position s)"
  shows "timer_expires e s = Inr s' \<Longrightarrow> position_ok (position s')"
    and "timer_expires e s = Inl r \<Longrightarrow> position_ok (position (snd r))"
proof -
  have c: "position_ok (position (timer_cancel s))"
    using assms by (simp add: timer_cancel_def)
  show "position_ok (position s')" if "timer_expires e s = Inr s'"
  proof (cases "running (timer s)")
    case False
    with that assms show ?thesis by (simp add: timer_expires_def)
  next
    case True
    show ?thesis
    proof (cases "action (timer s)")
      case LogDebug
      with True that c show ?thesis by (auto simp: timer_expires_def Let_def)
    next
      case DoStop
      with True that obtain r where "stop_shade e (timer_cancel s) = Inr r" "s' = snd r"
        by (auto simp: timer_expires_def Let_def map_sum_def split: sum.splits)
      with stop_shade_position_ok(1) [OF c] show ?thesis by simp
    next
      case (DoSetShadePosition p)
      with True that obtain r
        where "setShadePosition e p (timer_cancel s) = Inr r" "s' = snd r"
        by (auto simp: timer_expires_def Let_def map_sum_def split: sum.splits)
      with setShadePosition_position_ok(1) [OF c] show ?thesis by simp
    next
      case DoUpdatePosition
      with True that have "updatePosition e (timer_cancel s) = Inr s'"
        by (simp add: timer_expires_def Let_def)
      from updatePosition_position_ok(1) [OF c this] show ?thesis .
    qed
  qed
  show "position_ok (position (snd r))" if "timer_expires e s = Inl r"
  proof (cases "running (timer s)")
    case False
    with that show ?thesis by (simp add: timer_expires_def)
  next
    case True
    show ?thesis
    proof (cases "action (timer s)")
      case LogDebug
      with True that show ?thesis by (auto simp: timer_expires_def Let_def)
    next
      case DoStop
      with True that have "stop_shade e (timer_cancel s) = Inl r"
        by (auto simp: timer_expires_def Let_def map_sum_def split: sum.splits)
      from stop_shade_position_ok(2) [OF c this] show ?thesis .
    next
      case (DoSetShadePosition p)
      with True that have "setShadePosition e p (timer_cancel s) = Inl r"
        by (auto simp: timer_expires_def Let_def map_sum_def split: sum.splits)
      from setShadePosition_position_ok(2) [OF c this] show ?thesis .
    next
      case DoUpdatePosition
      with True that have "updatePosition e (timer_cancel s) = Inl r"
        by (simp add: timer_expires_def Let_def)
      from updatePosition_position_ok(2) [OF c this] show ?thesis .
    qed
  qed
qed

lemma map_sum_snd_cases:
  "map_sum id snd x = Inr s' \<longleftrightarrow> (\<exists>r. x = Inr r \<and> s' = snd r)"
  "map_sum id snd x = Inl l \<longleftrightarrow> x = Inl l"
  by (cases x; auto)+

lemma perform_position_ok:
  assumes "position_ok (position s)"
  shows "perform e opr s = Inr s' \<Longrightarrow> position_ok (position s')"
    and "perform e opr s = Inl r \<Longrightarrow> position_ok (position (snd r))"
proof -
  note sp = setShadePosition_position_ok [OF assms]
  show "position_ok (position s')" if p: "perform e opr s = Inr s'"
  proof (cases opr)
    case (DON v)
    with p obtain r t where "setShadePosition e t s = Inr r" "s' = snd r"
      by (auto simp: perform_def up_def map_sum_snd_cases split: sum.splits option.splits)
    with sp(1) show ?thesis by simp
  next
    case DOF
    with p obtain r where "setShadePosition e 0 s = Inr r" "s' = snd r"
      by (auto simp: perform_def down_def map_sum_snd_cases)
    with sp(1) show ?thesis by simp
  next
    case BRT
    show ?thesis
    proof (cases "position s = - 1")
      case True
      with BRT p assms show ?thesis by (auto simp: perform_def up5_def)
    next
      case False
      with BRT p obtain r where "setShadePosition e (position s + 5) s = Inr r" "s' = snd r"
        by (auto simp: perform_def up5_def map_sum_snd_cases)
      with sp(1) show ?thesis by simp
    qed
  next
    case DIM
    show ?thesis
    proof (cases "position s = - 1")
      case True
      with DIM p assms show ?thesis by (auto simp: perform_def down5_def)
    next
      case False
      with DIM p obtain r where "setShadePosition e (position s - 5) s = Inr r" "s' = snd r"
        by (auto simp: perform_def down5_def map_sum_snd_cases)
      with sp(1) show ?thesis by simp
    qed
  next
    case QUERY
    with p assms show ?thesis by (auto simp: perform_def query_def Let_def)
  next
    case STOP
    with p obtain r where "stop_shade e s = Inr r" "s' = snd r"
      by (auto simp: perform_def stop_def map_sum_snd_cases)
    with stop_shade_position_ok(1) [OF assms] show ?thesis by simp
  next
    case (SET_TRAVEL_TIME v)
    with p assms show ?thesis
      by (auto simp: perform_def setTravelTime_def split: sum.splits if_splits)
  next
    case Expiry
    with p have "timer_expires e s = Inr s'" by (simp add: perform_def)
    from timer_expires_position_ok(1) [OF assms this] show ?thesis .
  next
    case Finalize
    with p have "updatePosition e s = Inr s'" by (simp add: perform_def)
    from updatePosition_position_ok(1) [OF assms this] show ?thesis .
  qed
  show "position_ok (position (snd r))" if p: "perform e opr s = Inl r"
  proof (cases opr)
    case (DON v)
    show ?thesis
    proof (cases v)
      case None
      with DON p have "setShadePosition e 100 s = Inl r"
        by (simp add: perform_def up_def map_sum_snd_cases)
      with sp(2) show ?thesis by simp
    next
      case (Some x)
      show ?thesis
      proof (cases "py_int x")
        case (Inl err)
        with DON Some p assms show ?thesis
          by (auto simp: perform_def up_def)
      next
        case (Inr t)
        with DON Some p have "setShadePosition e t s = Inl r"
          by (simp add: perform_def up_def map_sum_snd_cases)
        with sp(2) show ?thesis by simp
      qed
    qed
  next
    case DOF
    with p have "setShadePosition e 0 s = Inl r"
      by (simp add: perform_def down_def map_sum_snd_cases)
    with sp(2) show ?thesis by simp
  next
    case BRT
    with p have "setShadePosition e (position s + 5) s = Inl r"
      by (simp add: perform_def up5_def map_sum_snd_cases split: if_splits)
    with sp(2) show ?thesis by simp
  next
    case DIM
    with p have "setShadePosition e (position s - 5) s = Inl r"
      by (simp add: perform_def down5_def map_sum_snd_cases split: if_splits)
    with sp(2) show ?thesis by simp
  next
    case QUERY
    with p show ?thesis by (simp add: perform_def)
  next
    case STOP
    with p have "stop_shade e s = Inl r"
      by (simp add: perform_def stop_def map_sum_snd_cases)
    from stop_shade_position_ok(2) [OF assms this] show ?thesis .
  next
    case (SET_TRAVEL_TIME v)
    with p show ?thesis by (simp add: perform_def)
  next
    case Expiry
    with p have "timer_expires e s = Inl r" by (simp add: perform_def)
    from timer_expires_position_ok(2) [OF assms this] show ?thesis .
  next
    case Finalize
    with p have "updatePosition e s = Inl r" by (simp add: perform_def)
    from updatePosition_position_ok(2) [OF assms this] show ?thesis .
  qed
qed

lemma run_position_ok:
  assumes "position_ok (position s)"
  shows "position_ok (position (run e s ops))"
  using assms
proof (induction ops arbitrary: s)
  case Nil
  then show ?case by simp
next
  case (Cons opr ops)
  show ?case
  proof (cases "perform e opr s")
    case (Inl r)
    from perform_position_ok(2) [OF Cons.prems Inl] Cons.IH [of "snd r"] Inl
    show ?thesis by simp
  next
    case (Inr s')
    from perform_position_ok(1) [OF Cons.prems Inr] Cons.IH [of s'] Inr
    show ?thesis by simp
  qed
qed

text \<open>
  C6. From the state a shade is created in, after any sequence of operations (the seven
  commands, with any values, the expiry of the timer, and finalization) the estimated
  position is \<open>- 1\<close> or lies in \<open>[0, 100]\<close>. Finalization itself, from any state and
  at any clock reading, returns whenever the travel time is not NaN; when it returns it
  has left the position as it was or set it within \<open>[0, 100]\<close>, and when it raises it
  has left the position as it was.
\<close>

theorem position_always_in_range:
  "position_ok (position (run e (init_shade a cfg) ops)) \<and>
   (as_float (travelTime s) \<noteq> NaN \<longrightarrow> (\<exists>s'. updatePosition e' s = Inr s')) \<and>
   (case updatePosition e' s of
      Inr s' \<Rightarrow> position s' = position s \<or> (0 \<le> position s' \<and> position s' \<le> 100)
    | Inl r \<Rightarrow> position (snd r) = position s)"
proof (intro conjI impI)
  have "position_ok (position (init_shade a cfg))"
    by (simp add: init_shade_def position_ok_def)
  then show "position_ok (position (run e (init_shade a cfg) ops))"
    by (rule run_position_ok)
next
  assume "as_float (travelTime s) \<noteq> NaN"
  then show "\<exists>s'. updatePosition e' s = Inr s'" by (rule updatePosition_total)
next
  show "case updatePosition e' s of
      Inr s' \<Rightarrow> position s' = position s \<or> (0 \<le> position s' \<and> position s' \<le> 100)
    | Inl r \<Rightarrow> position (snd r) = position s"
  proof (cases "updatePosition e' s")
    case (Inl r)
    from updatePosition_raised(2) [OF Inl] Inl show ?thesis
      by (simp add: tick_def timer_cancel_def)
  next
    case (Inr s')
    from new_position_range [OF updatePosition_fields(1) [OF Inr]] Inr
    show ?thesis by simp
  qed
qed

theorem position_always_in_range_witness:
  "position_ok (position (run (stepping_env 10) (init_shade ''01_01_01'' None)
      [DOF, Expiry, SET_TRAVEL_TIME (Some NanText), DON (Some (IntText 50)), STOP])) \<and>
   map_sum fst position (updatePosition (still_env 12) (demo_shade 30 ''U'')) = Inr 100"
proof -
  have T: "as_float (travelTime (demo_shade 30 ''U'')) \<noteq> NaN"
    by (simp add: demo_shade_simps)
  have "new_position (still_env 12) 12 (demo_shade 30 ''U'') = Inr 100"
    by (simp add: new_position_def Let_def demo_shade_simps env_simps)
  from updatePosition_eq [of "still_env 12" "demo_shade 30 ''U''" 100] this
  have "map_sum fst position (updatePosition (still_env 12) (demo_shade 30 ''U'')) = Inr 100"
    by (simp add: env_simps demo_shade_simps)
  with T position_always_in_range [of "stepping_env 10" "''01_01_01''" None
      "[DOF, Expiry, SET_TRAVEL_TIME (Some NanText), DON (Some (IntText 50)), STOP]"
      "demo_shade 30 ''U''" "still_env 12"]
  show ?thesis by simp
qed

subsection \<open>Calibration and nudges\<close>

text \<open>
  On every value but NaN \<^verbatim>\<open>setTravelTime\<close> does what its range test is for: it
  succeeds exactly when \<^verbatim>\<open>float()\<close> accepts the value and the result lies in
  \<open>[0, 60]\<close>, storing it then, and changes nothing otherwise.
\<close>

lemma setTravelTime_checks_range:
  "(\<forall>err. py_float v = Inl err \<longrightarrow> setTravelTime v s = (False, s)) \<and>
   (\<forall>t. py_float v = Inr t \<and> t \<noteq> NaN \<longrightarrow>
      (fst (setTravelTime v s) \<longleftrightarrow> float_le (Finite 0) t \<and> float_le t (Finite 60))) \<and>
   (\<forall>t. py_float v = Inr t \<and> fst (setTravelTime v s) \<longrightarrow>
      snd (setTravelTime v s) = s\<lparr>travelTime := PyFloat t, drv_GV1 := PyFloat t\<rparr>) \<and>
   (\<not> fst (setTravelTime v s) \<longrightarrow> snd (setTravelTime v s) = s)"
proof -
  have "(float_lt t (Finite 0) \<or> float_lt (Finite 60) t) \<longleftrightarrow>
      \<not> (float_le (Finite 0) t \<and> float_le t (Finite 60))" if "t \<noteq> NaN" for t
    using that by (cases t) auto
  then show ?thesis
    by (auto simp: setTravelTime_def split: sum.splits)
qed

text \<open>
  C7, at the input the code gets wrong. \<^verbatim>\<open>float()\<close> accepts the text \<^verbatim>\<open>nan\<close>; NaN
  does not lie in \<open>[0, 60]\<close>, but both comparisons of the range test are false on it,
  so \<^verbatim>\<open>setTravelTime\<close> returns \<^verbatim>\<open>True\<close> and stores NaN as the travel time.
\<close>

theorem setTravelTime_accepts_nan:
  "py_float (Some NanText) = Inr NaN \<and>
   \<not> (float_le (Finite 0) NaN \<and> float_le NaN (Finite 60)) \<and>
   setTravelTime (Some NanText) (demo_shade 30 []) =
     (True, (demo_shade 30 [])\<lparr>travelTime := PyFloat NaN, drv_GV1 := PyFloat NaN\<rparr>)"
  by (simp add: setTravelTime_def)

text \<open>
  The stored NaN is reached by finalization. A shade with the default travel time is sent
  down and its timer expires ten seconds later, which makes the position 0; the travel
  time is then set to \<^verbatim>\<open>nan\<close> and the shade sent to 50; the Stop that follows raises
  in \<^verbatim>\<open>_updatePosition\<close>, at \<^verbatim>\<open>int()\<close> of a NaN.
\<close>

lemma init_8: "init_shade a None = \<lparr>address = a, position = - 1, lastCmdTime = 0, lastCmd = [],
      travelTime = IntEight,
      timer = \<lparr>interval = Finite 1, action = LogDebug, running = False\<rparr>,
      drv_ST = 0, drv_GV1 = IntEight, sent = [], ticks = 0\<rparr>"
  by (simp add: init_shade_def configured_travelTime_def)

lemma nan_travel_time_reaches_finalization:
  "map_sum fst position
     (perform (stepping_env 10) STOP
        (run (stepping_env 10) (init_shade ''01_01_01'' None)
           [DOF, Expiry, SET_TRAVEL_TIME (Some NanText), DON (Some (IntText 50))])) =
   Inl ValueError"
  by (simp add: init_8 perform_def down_def up_def stop_def stop_shade_def setShadePosition_def
      updatePosition_def new_position_def command_shade_def timer_expires_def
      setTravelTime_def travelTimeReqd_def next_action_def isNumeric_def
      hand_over_def tick_def time_time_def timer_cancel_def env_simps clamp_int Let_def)

text \<open>
  C8. With the position unknown, \<^verbatim>\<open>up5\<close> and \<^verbatim>\<open>down5\<close> return \<^verbatim>\<open>False\<close> and
  change nothing, so nothing is handed to the controller; with a known position they are
  \<^verbatim>\<open>setShadePosition\<close> at the position plus and minus 5.
\<close>

theorem nudges_need_known_position:
  "(position s = - 1 \<longrightarrow>
      up5 e s = Inr (False, s) \<and> down5 e s = Inr (False, s) \<and>
      map_sum id (sent \<circ> snd) (up5 e s) = Inr (sent s) \<and>
      map_sum id (sent \<circ> snd) (down5 e s) = Inr (sent s)) \<and>
   (position s \<noteq> - 1 \<longrightarrow>
      up5 e s = setShadePosition e (position s + 5) s \<and>
      down5 e s = setShadePosition e (position s - 5) s)"
  by (simp add: up5_def down5_def)

theorem nudges_need_known_position_witness:
  "up5 (still_env 0) (demo_shade (- 1) []) = Inr (False, demo_shade (- 1) []) \<and>
   down5 (still_env 0) (demo_shade (- 1) []) = Inr (False, demo_shade (- 1) []) \<and>
   up5 (still_env 0) (demo_shade 30 []) = setShadePosition (still_env 0) 35 (demo_shade 30 []) \<and>
   down5 (still_env 0) (demo_shade 30 []) = setShadePosition (still_env 0) 25 (demo_shade 30 [])"
  using nudges_need_known_position [of "demo_shade (- 1) []" "still_env 0"]
    nudges_need_known_position [of "demo_shade 30 []" "still_env 0"]
  by (simp add: demo_shade_simps)

section \<open>Properties of the serial transport\<close>












end
